theory Spec2Isabelle
  imports Complex_Main
begin

section \<open>Full-text-search fragment builders of drizzle-orm\<close>

text \<open>
  The module \<^verbatim>\<open>src/drizzle-orm/src/sql/functions/full-text-search.ts\<close> exports eight
  functions. Each one inspects its positional arguments (JavaScript values, an omitted
  optional argument being \<^verbatim>\<open>undefined\<close>) and returns one tagged-template call
  \<^verbatim>\<open>sql`...`\<close>. The embedding below keeps that shape: a function of the argument values
  whose result is one call of the composer.
\<close>

subsection \<open>JavaScript values\<close>

text \<open>
  A JavaScript number: the finite values (every finite double is a rational, so the
  rationals cover them), negative zero, the two infinities and NaN. \<open>Finite 0\<close> is the
  number \<^verbatim>\<open>0\<close>.
\<close>

datatype number = Finite rat | NegZero | PosInfinity | NegInfinity | NaN

text \<open>
  The values the functions of this module are typed to receive: \<^verbatim>\<open>undefined\<close> (an
  optional argument left out), a number, a string, a \<^verbatim>\<open>number[]\<close>, a column
  (\<^verbatim>\<open>AnyPgColumn\<close>) and an SQL fragment (\<^verbatim>\<open>SQL\<close>). Columns and fragments are opaque to
  the module, hence the two type parameters.
\<close>

datatype ('s, 'c) jsval =
    Undefined
  | Num number
  | Str string
  | Arr (elements: "number list")
  | Column 'c
  | Sql 's

text \<open>The \<^verbatim>\<open>typeof\<close> operator.\<close>

fun typeof :: "('s, 'c) jsval \<Rightarrow> string" where
  "typeof Undefined = ''undefined''"
| "typeof (Num n) = ''number''"
| "typeof (Str s) = ''string''"
| "typeof (Arr ws) = ''object''"
| "typeof (Column c) = ''object''"
| "typeof (Sql f) = ''object''"

text \<open>\<^verbatim>\<open>Array.isArray\<close>.\<close>

fun isArray :: "('s, 'c) jsval \<Rightarrow> bool" where
  "isArray (Arr ws) = True"
| "isArray Undefined = False"
| "isArray (Num n) = False"
| "isArray (Str s) = False"
| "isArray (Column c) = False"
| "isArray (Sql f) = False"

text \<open>
  Truthiness, the conversion behind \<^verbatim>\<open>x ? a : b\<close>: \<^verbatim>\<open>undefined\<close>, the zeros, NaN and the
  empty string are falsy; every object (array, column, fragment) is truthy.
\<close>

fun number_truthy :: "number \<Rightarrow> bool" where
  "number_truthy (Finite r) = (r \<noteq> 0)"
| "number_truthy NegZero = False"
| "number_truthy NaN = False"
| "number_truthy PosInfinity = True"
| "number_truthy NegInfinity = True"

fun ToBoolean :: "('s, 'c) jsval \<Rightarrow> bool" where
  "ToBoolean Undefined = False"
| "ToBoolean (Num n) = number_truthy n"
| "ToBoolean (Str s) = (s \<noteq> [])"
| "ToBoolean (Arr ws) = True"
| "ToBoolean (Column c) = True"
| "ToBoolean (Sql f) = True"

text \<open>
  \<^verbatim>\<open>Array.prototype.join\<close> on a \<^verbatim>\<open>number[]\<close>: the elements' string forms with the separator
  between neighbours, the empty string for the empty array. The string form of one
  number (\<^verbatim>\<open>Number.prototype.toString\<close>) is a built-in of the language and is taken as the
  parameter \<open>toString\<close>.
\<close>

fun join_strings :: "string \<Rightarrow> string list \<Rightarrow> string" where
  "join_strings sep [] = []"
| "join_strings sep [x] = x"
| "join_strings sep (x # y # ys) = x @ sep @ join_strings sep (y # ys)"

definition array_join :: "(number \<Rightarrow> string) \<Rightarrow> number list \<Rightarrow> string \<Rightarrow> string" where
  "array_join toString ws sep = join_strings sep (map toString ws)"

subsection \<open>The fragment composer\<close>

text \<open>
  The tagged template \<^verbatim>\<open>sql\<close> is imported from \<^verbatim>\<open>../sql.ts\<close>; the module only calls it. A
  call \<^verbatim>\<open>sql`s0${v1}s1${v2}s2`\<close> hands the composer the literal pieces \<open>[s0, s1, s2]\<close> and
  the interpolated values \<open>[v1, v2]\<close>. Every function below therefore takes the composer
  as its first argument \<open>sql\<close>, of type \<open>string list \<Rightarrow> ('s, 'c) jsval list \<Rightarrow> 'r\<close>, and
  whatever the composer yields (a fragment, or a failure inside \<open>'r\<close>) is the result.
\<close>

text \<open>
  Modelled from the spec: the fragment type and its constructor live in \<^verbatim>\<open>../sql.ts\<close>,
  which is not among the sources. The spec describes them as an opaque unit that composes
  a template with embedded interpolation slots and the interpolated values into an
  immutable fragment, preserving the argument-to-placeholder binding. \<open>Frag\<close> records
  exactly that: the fixed text pieces and the bound values, in order.
\<close>

datatype frag = Frag (strings: "string list") (params: "(frag, string) jsval list")

subsection \<open>The exported functions\<close>

definition to_tsvector ::
  "(string list \<Rightarrow> ('s, 'c) jsval list \<Rightarrow> 'r) \<Rightarrow> ('s, 'c) jsval \<Rightarrow> ('s, 'c) jsval \<Rightarrow> 'r" where
  "to_tsvector sql arg1 arg2 =
     (if ToBoolean arg2 then sql [''to_tsvector('', '', '', '')''] [arg1, arg2]
      else sql [''to_tsvector('', '')''] [arg1])"

definition to_tsquery ::
  "(string list \<Rightarrow> ('s, 'c) jsval list \<Rightarrow> 'r) \<Rightarrow> ('s, 'c) jsval \<Rightarrow> ('s, 'c) jsval \<Rightarrow> 'r" where
  "to_tsquery sql arg1 arg2 =
     (if ToBoolean arg2 then sql [''to_tsquery('', '', '', '')''] [arg1, arg2]
      else sql [''to_tsquery('', '')''] [arg1])"

definition plainto_tsquery ::
  "(string list \<Rightarrow> ('s, 'c) jsval list \<Rightarrow> 'r) \<Rightarrow> ('s, 'c) jsval \<Rightarrow> ('s, 'c) jsval \<Rightarrow> 'r" where
  "plainto_tsquery sql arg1 arg2 =
     (if ToBoolean arg2 then sql [''plainto_tsquery('', '', '', '')''] [arg1, arg2]
      else sql [''plainto_tsquery('', '')''] [arg1])"

definition phraseto_tsquery ::
  "(string list \<Rightarrow> ('s, 'c) jsval list \<Rightarrow> 'r) \<Rightarrow> ('s, 'c) jsval \<Rightarrow> ('s, 'c) jsval \<Rightarrow> 'r" where
  "phraseto_tsquery sql arg1 arg2 =
     (if ToBoolean arg2 then sql [''phraseto_tsquery('', '', '', '')''] [arg1, arg2]
      else sql [''phraseto_tsquery('', '')''] [arg1])"

definition websearch_to_tsquery ::
  "(string list \<Rightarrow> ('s, 'c) jsval list \<Rightarrow> 'r) \<Rightarrow> ('s, 'c) jsval \<Rightarrow> ('s, 'c) jsval \<Rightarrow> 'r" where
  "websearch_to_tsquery sql arg1 arg2 =
     (if ToBoolean arg2 then sql [''websearch_to_tsquery('', '', '', '')''] [arg1, arg2]
      else sql [''websearch_to_tsquery('', '')''] [arg1])"

definition ts_rank ::
  "(string list \<Rightarrow> ('s, 'c) jsval list \<Rightarrow> 'r) \<Rightarrow> (number \<Rightarrow> string) \<Rightarrow>
   ('s, 'c) jsval \<Rightarrow> ('s, 'c) jsval \<Rightarrow> ('s, 'c) jsval \<Rightarrow> ('s, 'c) jsval \<Rightarrow> 'r" where
  "ts_rank sql toString arg1 arg2 arg3 arg4 =
     (if isArray arg1 \<and> typeof arg2 \<noteq> ''number'' \<and> arg3 \<noteq> Undefined then
        (if ToBoolean arg4
         then sql [''ts_rank(string_to_array('', '', ',')::float4[], '', '', '', '', '', '')'']
                  [Str (array_join toString (elements arg1) '',''), arg2, arg3, arg4]
         else sql [''ts_rank(string_to_array('', '', ',')::float4[], '', '', '', '')'']
                  [Str (array_join toString (elements arg1) '',''), arg2, arg3])
      else
        (if ToBoolean arg3 then sql [''ts_rank('', '', '', '', '', '')''] [arg1, arg2, arg3]
         else sql [''ts_rank('', '', '', '')''] [arg1, arg2]))"

definition ts_rank_cd ::
  "(string list \<Rightarrow> ('s, 'c) jsval list \<Rightarrow> 'r) \<Rightarrow> (number \<Rightarrow> string) \<Rightarrow>
   ('s, 'c) jsval \<Rightarrow> ('s, 'c) jsval \<Rightarrow> ('s, 'c) jsval \<Rightarrow> ('s, 'c) jsval \<Rightarrow> 'r" where
  "ts_rank_cd sql toString arg1 arg2 arg3 arg4 =
     (if isArray arg1 \<and> typeof arg2 \<noteq> ''number'' \<and> arg3 \<noteq> Undefined then
        (if ToBoolean arg4
         then sql [''ts_rank_cd(string_to_array('', '', ',')::float4[], '', '', '', '', '', '')'']
                  [Str (array_join toString (elements arg1) '',''), arg2, arg3, arg4]
         else sql [''ts_rank_cd(string_to_array('', '', ',')::float4[], '', '', '', '')'']
                  [Str (array_join toString (elements arg1) '',''), arg2, arg3])
      else
        (if ToBoolean arg3 then sql [''ts_rank_cd('', '', '', '', '', '')''] [arg1, arg2, arg3]
         else sql [''ts_rank_cd('', '', '', '')''] [arg1, arg2]))"

definition setweight ::
  "(string list \<Rightarrow> ('s, 'c) jsval list \<Rightarrow> 'r) \<Rightarrow> ('s, 'c) jsval \<Rightarrow> ('s, 'c) jsval \<Rightarrow> 'r" where
  "setweight sql vector weight = sql [''setweight('', '', '', '')''] [vector, weight]"

subsection \<open>Evaluation with failure and the heap made explicit\<close>

text \<open>
  The definitions above give, for each function, the composer call it ends in. Two things a
  JavaScript function can do besides returning are not visible in them: raise an error, and
  change an object that lives on after the call. The definitions of this subsection run the
  same function bodies with both made explicit.

  An array argument is a reference; \<open>heap\<close> gives the current elements of every array
  object. Any other argument is an immutable value or an opaque object that the module
  only passes on. \<open>load\<close> reads an argument as it is on a given heap.
\<close>

type_synonym addr = nat

type_synonym heap = "addr \<Rightarrow> number list"

datatype ('s, 'c) jsref = Ref addr | Imm "('s, 'c) jsval"

fun load :: "heap \<Rightarrow> ('s, 'c) jsref \<Rightarrow> ('s, 'c) jsval" where
  "load h (Ref a) = Arr (h a)"
| "load h (Imm v) = v"

datatype js_error = TypeError

text \<open>
  The method call \<^verbatim>\<open>x.join(sep)\<close>. On an array it returns the joined string and leaves the
  elements as they are. A value of any other kind the module can receive has no \<^verbatim>\<open>join\<close>
  method (for \<^verbatim>\<open>undefined\<close> not even the property lookup succeeds), and the call raises a
  \<^verbatim>\<open>TypeError\<close>. It is the only operation in the module that can raise: \<^verbatim>\<open>Array.isArray\<close>,
  \<^verbatim>\<open>typeof\<close>, \<^verbatim>\<open>!==\<close> and the truth test of \<^verbatim>\<open>? :\<close> are defined on every value. And
  the module has no assignment: no variable, property or array element is written.
\<close>

definition join_method ::
  "(number \<Rightarrow> string) \<Rightarrow> ('s, 'c) jsref \<Rightarrow> string \<Rightarrow> heap \<Rightarrow> (js_error + string) \<times> heap" where
  "join_method toString r sep h =
     (if isArray (load h r) then (Inr (array_join toString (elements (load h r)) sep), h)
      else (Inl TypeError, h))"

text \<open>
  Each function takes the heap and returns its outcome with the heap it leaves: \<open>Inl\<close> an
  error raised by the function itself, \<open>Inr\<close> the result of the composer call. The composer
  is handed every interpolated value as it is at the time of the call.
\<close>

definition to_tsvector_run ::
  "(string list \<Rightarrow> ('s, 'c) jsval list \<Rightarrow> 'r) \<Rightarrow> ('s, 'c) jsref \<Rightarrow> ('s, 'c) jsref \<Rightarrow> heap
   \<Rightarrow> (js_error + 'r) \<times> heap" where
  "to_tsvector_run sql arg1 arg2 h =
     (if ToBoolean (load h arg2)
      then (Inr (sql [''to_tsvector('', '', '', '')''] [load h arg1, load h arg2]), h)
      else (Inr (sql [''to_tsvector('', '')''] [load h arg1]), h))"

definition to_tsquery_run ::
  "(string list \<Rightarrow> ('s, 'c) jsval list \<Rightarrow> 'r) \<Rightarrow> ('s, 'c) jsref \<Rightarrow> ('s, 'c) jsref \<Rightarrow> heap
   \<Rightarrow> (js_error + 'r) \<times> heap" where
  "to_tsquery_run sql arg1 arg2 h =
     (if ToBoolean (load h arg2)
      then (Inr (sql [''to_tsquery('', '', '', '')''] [load h arg1, load h arg2]), h)
      else (Inr (sql [''to_tsquery('', '')''] [load h arg1]), h))"

definition plainto_tsquery_run ::
  "(string list \<Rightarrow> ('s, 'c) jsval list \<Rightarrow> 'r) \<Rightarrow> ('s, 'c) jsref \<Rightarrow> ('s, 'c) jsref \<Rightarrow> heap
   \<Rightarrow> (js_error + 'r) \<times> heap" where
  "plainto_tsquery_run sql arg1 arg2 h =
     (if ToBoolean (load h arg2)
      then (Inr (sql [''plainto_tsquery('', '', '', '')''] [load h arg1, load h arg2]), h)
      else (Inr (sql [''plainto_tsquery('', '')''] [load h arg1]), h))"

definition phraseto_tsquery_run ::
  "(string list \<Rightarrow> ('s, 'c) jsval list \<Rightarrow> 'r) \<Rightarrow> ('s, 'c) jsref \<Rightarrow> ('s, 'c) jsref \<Rightarrow> heap
   \<Rightarrow> (js_error + 'r) \<times> heap" where
  "phraseto_tsquery_run sql arg1 arg2 h =
     (if ToBoolean (load h arg2)
      then (Inr (sql [''phraseto_tsquery('', '', '', '')''] [load h arg1, load h arg2]), h)
      else (Inr (sql [''phraseto_tsquery('', '')''] [load h arg1]), h))"

definition websearch_to_tsquery_run ::
  "(string list \<Rightarrow> ('s, 'c) jsval list \<Rightarrow> 'r) \<Rightarrow> ('s, 'c) jsref \<Rightarrow> ('s, 'c) jsref \<Rightarrow> heap
   \<Rightarrow> (js_error + 'r) \<times> heap" where
  "websearch_to_tsquery_run sql arg1 arg2 h =
     (if ToBoolean (load h arg2)
      then (Inr (sql [''websearch_to_tsquery('', '', '', '')''] [load h arg1, load h arg2]), h)
      else (Inr (sql [''websearch_to_tsquery('', '')''] [load h arg1]), h))"

definition ts_rank_run ::
  "(string list \<Rightarrow> ('s, 'c) jsval list \<Rightarrow> 'r) \<Rightarrow> (number \<Rightarrow> string) \<Rightarrow>
   ('s, 'c) jsref \<Rightarrow> ('s, 'c) jsref \<Rightarrow> ('s, 'c) jsref \<Rightarrow> ('s, 'c) jsref \<Rightarrow> heap
   \<Rightarrow> (js_error + 'r) \<times> heap" where
  "ts_rank_run sql toString arg1 arg2 arg3 arg4 h =
     (if isArray (load h arg1) \<and> typeof (load h arg2) \<noteq> ''number'' \<and> load h arg3 \<noteq> Undefined then
        (if ToBoolean (load h arg4) then
           (case join_method toString arg1 '','' h of
              (Inl e, h') \<Rightarrow> (Inl e, h')
            | (Inr s, h') \<Rightarrow>
                (Inr (sql [''ts_rank(string_to_array('', '', ',')::float4[], '', '', '', '', '', '')'']
                          [Str s, load h' arg2, load h' arg3, load h' arg4]), h'))
         else
           (case join_method toString arg1 '','' h of
              (Inl e, h') \<Rightarrow> (Inl e, h')
            | (Inr s, h') \<Rightarrow>
                (Inr (sql [''ts_rank(string_to_array('', '', ',')::float4[], '', '', '', '')'']
                          [Str s, load h' arg2, load h' arg3]), h')))
      else
        (if ToBoolean (load h arg3)
         then (Inr (sql [''ts_rank('', '', '', '', '', '')'']
                        [load h arg1, load h arg2, load h arg3]), h)
         else (Inr (sql [''ts_rank('', '', '', '')''] [load h arg1, load h arg2]), h)))"

definition ts_rank_cd_run ::
  "(string list \<Rightarrow> ('s, 'c) jsval list \<Rightarrow> 'r) \<Rightarrow> (number \<Rightarrow> string) \<Rightarrow>
   ('s, 'c) jsref \<Rightarrow> ('s, 'c) jsref \<Rightarrow> ('s, 'c) jsref \<Rightarrow> ('s, 'c) jsref \<Rightarrow> heap
   \<Rightarrow> (js_error + 'r) \<times> heap" where
  "ts_rank_cd_run sql toString arg1 arg2 arg3 arg4 h =
     (if isArray (load h arg1) \<and> typeof (load h arg2) \<noteq> ''number'' \<and> load h arg3 \<noteq> Undefined then
        (if ToBoolean (load h arg4) then
           (case join_method toString arg1 '','' h of
              (Inl e, h') \<Rightarrow> (Inl e, h')
            | (Inr s, h') \<Rightarrow>
                (Inr (sql [''ts_rank_cd(string_to_array('', '', ',')::float4[], '', '', '', '', '', '')'']
                          [Str s, load h' arg2, load h' arg3, load h' arg4]), h'))
         else
           (case join_method toString arg1 '','' h of
              (Inl e, h') \<Rightarrow> (Inl e, h')
            | (Inr s, h') \<Rightarrow>
                (Inr (sql [''ts_rank_cd(string_to_array('', '', ',')::float4[], '', '', '', '')'']
                          [Str s, load h' arg2, load h' arg3]), h')))
      else
        (if ToBoolean (load h arg3)
         then (Inr (sql [''ts_rank_cd('', '', '', '', '', '')'']
                        [load h arg1, load h arg2, load h arg3]), h)
         else (Inr (sql [''ts_rank_cd('', '', '', '')''] [load h arg1, load h arg2]), h)))"

definition setweight_run ::
  "(string list \<Rightarrow> ('s, 'c) jsval list \<Rightarrow> 'r) \<Rightarrow> ('s, 'c) jsref \<Rightarrow> ('s, 'c) jsref \<Rightarrow> heap
   \<Rightarrow> (js_error + 'r) \<times> heap" where
  "setweight_run sql vector weight h =
     (Inr (sql [''setweight('', '', '', '')''] [load h vector, load h weight]), h)"

subsection \<open>A concrete number-to-string function for worked examples\<close>

text \<open>
  The examples below need some concrete \<open>toString\<close>. \<open>integer_toString\<close> is a stand-in
  for \<^verbatim>\<open>Number.prototype.toString\<close>, not a model of it. It gives JavaScript's output on
  NaN, the infinities, the two zeros and the integer-valued numbers of magnitude below
  \<open>10^21\<close>. On every other number its output differs from JavaScript's: it prints the
  digits of the number rounded down in magnitude (\<^verbatim>\<open>0\<close> for \<^verbatim>\<open>0.1\<close>, \<^verbatim>\<open>-0\<close> for \<^verbatim>\<open>-0.5\<close>), and
  prints large integers in full where JavaScript switches to exponent notation. The
  examples use it on the weights \<open>1\<close> and \<open>2\<close> only, and no general statement depends on it.
\<close>

fun string_of_nat :: "nat \<Rightarrow> string" where
  "string_of_nat n =
     (if n < 10 then [''0123456789'' ! n]
      else string_of_nat (n div 10) @ [''0123456789'' ! (n mod 10)])"

declare string_of_nat.simps [simp del]

fun integer_toString :: "number \<Rightarrow> string" where
  "integer_toString (Finite r) =
     (if r < 0 then ''-'' @ string_of_nat (nat \<lfloor>- r\<rfloor>) else string_of_nat (nat \<lfloor>r\<rfloor>))"
| "integer_toString NegZero = ''0''"
| "integer_toString PosInfinity = ''Infinity''"
| "integer_toString NegInfinity = ''-Infinity''"
| "integer_toString NaN = ''NaN''"

section \<open>Verified properties\<close>

text \<open>
  Throughout, a statement about an arbitrary composer \<open>sql\<close> says which template pieces and
  which values the function hands to the composer; a statement about the recording
  composer \<open>Frag\<close> reads the fixed text with \<open>strings\<close> and the bound values with \<open>params\<close>.
\<close>

subsection \<open>The weight-label operation\<close>

text \<open>
  C9. For every vector and every weight label, \<open>setweight vector label\<close> is the one
  composer call with the fixed two-slot template \<^verbatim>\<open>setweight(_, _)\<close>, the vector bound to
  the first slot and the label to the second. There is no branch in the function: the same
  template is used whatever the two argument values are.
\<close>

theorem setweight_fixed_template:
  "setweight sql vector weight = sql [''setweight('', '', '', '')''] [vector, weight]"
  by (simp add: setweight_def)

subsection \<open>Ranking: which call shape is recognised\<close>

text \<open>
  C3. In \<open>ts_rank\<close> and in \<open>ts_rank_cd\<close> alike, the first argument is taken as the weights
  exactly when it is an array, the second argument is not a number, and the third argument
  is present (not \<^verbatim>\<open>undefined\<close>): the rendered text starts with the
  \<^verbatim>\<open>string_to_array\<close> form if and only if these three conditions hold. When they hold, the
  bound values are the joined weights, then the second argument (vector), then the third
  (query), then the fourth (normalization) whenever the function renders a fourth slot.
\<close>

theorem ts_rank_weights_classification:
  "(hd (strings (ts_rank Frag toString arg1 arg2 arg3 arg4)) = ''ts_rank(string_to_array(''
      \<longleftrightarrow> isArray arg1 \<and> typeof arg2 \<noteq> ''number'' \<and> arg3 \<noteq> Undefined)
   \<and> (hd (strings (ts_rank_cd Frag toString arg1 arg2 arg3 arg4)) = ''ts_rank_cd(string_to_array(''
      \<longleftrightarrow> isArray arg1 \<and> typeof arg2 \<noteq> ''number'' \<and> arg3 \<noteq> Undefined)
   \<and> (isArray arg1 \<and> typeof arg2 \<noteq> ''number'' \<and> arg3 \<noteq> Undefined \<longrightarrow>
        params (ts_rank Frag toString arg1 arg2 arg3 arg4)
          = Str (array_join toString (elements arg1) '','') # arg2 # arg3
              # (if ToBoolean arg4 then [arg4] else [])
      \<and> params (ts_rank_cd Frag toString arg1 arg2 arg3 arg4)
          = Str (array_join toString (elements arg1) '','') # arg2 # arg3
              # (if ToBoolean arg4 then [arg4] else []))"
  by (simp add: ts_rank_def ts_rank_cd_def)

theorem ts_rank_weights_classification_witness:
  "isArray (Arr [Finite 1, Finite 2] :: (frag, string) jsval)
   \<and> typeof (Sql (Frag [''v''] []) :: (frag, string) jsval) \<noteq> ''number''
   \<and> (Sql (Frag [''q''] []) :: (frag, string) jsval) \<noteq> Undefined
   \<and> hd (strings (ts_rank Frag integer_toString (Arr [Finite 1, Finite 2])
         (Sql (Frag [''v''] [])) (Sql (Frag [''q''] [])) (Num (Finite 2))))
       = ''ts_rank(string_to_array(''
   \<and> params (ts_rank Frag integer_toString (Arr [Finite 1, Finite 2])
         (Sql (Frag [''v''] [])) (Sql (Frag [''q''] [])) (Num (Finite 2)))
       = [Str ''1,2'', Sql (Frag [''v''] []), Sql (Frag [''q''] []), Num (Finite 2)]
   \<and> params (ts_rank_cd Frag integer_toString (Arr [Finite 1, Finite 2])
         (Sql (Frag [''v''] [])) (Sql (Frag [''q''] [])) (Num (Finite 2)))
       = [Str ''1,2'', Sql (Frag [''v''] []), Sql (Frag [''q''] []), Num (Finite 2)]"
  using ts_rank_weights_classification [of integer_toString "Arr [Finite 1, Finite 2]"
      "Sql (Frag [''v''] [])" "Sql (Frag [''q''] [])" "Num (Finite 2)"]
  by (simp add: array_join_def string_of_nat.simps)

text \<open>
  C4. A call of \<open>ts_rank\<close> or \<open>ts_rank_cd\<close> with exactly two arguments is never read as
  having weights, even when the first argument is an array: the function makes the one
  composer call with the plain two-slot template and the array in the vector slot, so the
  outcome, failure included, is the composer's on that call.
\<close>

theorem ts_rank_two_args_no_weights:
  "ts_rank sql toString (Arr ws) arg2 Undefined Undefined
     = sql [''ts_rank('', '', '', '')''] [Arr ws, arg2]
   \<and> ts_rank_cd sql toString (Arr ws) arg2 Undefined Undefined
     = sql [''ts_rank_cd('', '', '', '')''] [Arr ws, arg2]"
  by (simp add: ts_rank_def ts_rank_cd_def)

subsection \<open>Ranking: how the weights are rendered\<close>

lemma join_strings_Cons:
  "join_strings sep (x # xs) = x @ concat (map (\<lambda>y. sep @ y) xs)"
  by (induction xs arbitrary: x) simp_all

lemma array_join_unfold:
  "array_join toString ws sep =
     (case ws of [] \<Rightarrow> [] | w # ws' \<Rightarrow> toString w @ concat (map (\<lambda>x. sep @ toString x) ws'))"
  by (cases ws) (simp_all add: array_join_def join_strings_Cons comp_def)

text \<open>
  C2. For every weights array \<open>ws\<close>, \<open>ts_rank ws vector query\<close> (and \<open>ts_rank_cd\<close>) renders
  \<^verbatim>\<open>string_to_array(_, ',')::float4[]\<close> before the vector slot and the query slot, and the
  value in that first slot is the string of the elements of \<open>ws\<close> joined with commas: the
  first element's string form, then a comma and the string form for each further element.
  Without a weights argument, \<open>ts_rank vector query\<close> with or without a normalization
  renders the plain template: no weights segment, no extra slot.
\<close>

theorem ts_rank_weights_segment:
  "ts_rank sql toString (Arr ws) (Sql v) (Sql q) Undefined
     = sql [''ts_rank(string_to_array('', '', ',')::float4[], '', '', '', '')'']
           [Str (array_join toString ws '',''), Sql v, Sql q]
   \<and> ts_rank_cd sql toString (Arr ws) (Sql v) (Sql q) Undefined
     = sql [''ts_rank_cd(string_to_array('', '', ',')::float4[], '', '', '', '')'']
           [Str (array_join toString ws '',''), Sql v, Sql q]
   \<and> array_join toString ws '','' =
       (case ws of [] \<Rightarrow> []
        | w # ws' \<Rightarrow> toString w @ concat (map (\<lambda>x. '','' @ toString x) ws'))
   \<and> ts_rank sql toString (Sql v) (Sql q) arg3 arg4
     = (if ToBoolean arg3 then sql [''ts_rank('', '', '', '', '', '')''] [Sql v, Sql q, arg3]
        else sql [''ts_rank('', '', '', '')''] [Sql v, Sql q])
   \<and> ts_rank_cd sql toString (Sql v) (Sql q) arg3 arg4
     = (if ToBoolean arg3 then sql [''ts_rank_cd('', '', '', '', '', '')''] [Sql v, Sql q, arg3]
        else sql [''ts_rank_cd('', '', '', '')''] [Sql v, Sql q])"
  using array_join_unfold [of toString ws "'',''"]
  by (simp add: ts_rank_def ts_rank_cd_def)

text \<open>
  C10. An empty weights array is still a weights argument: \<open>ts_rank [] vector query\<close>, with
  or without a normalization, renders the \<^verbatim>\<open>string_to_array(_, ',')::float4[]\<close> segment,
  and the value in its slot is the empty string. The same holds for \<open>ts_rank_cd\<close>.
\<close>

theorem ts_rank_empty_weights:
  "ts_rank sql toString (Arr []) (Sql v) (Sql q) arg4
     = (if ToBoolean arg4
        then sql [''ts_rank(string_to_array('', '', ',')::float4[], '', '', '', '', '', '')'']
                 [Str [], Sql v, Sql q, arg4]
        else sql [''ts_rank(string_to_array('', '', ',')::float4[], '', '', '', '')'']
                 [Str [], Sql v, Sql q])
   \<and> ts_rank_cd sql toString (Arr []) (Sql v) (Sql q) arg4
     = (if ToBoolean arg4
        then sql [''ts_rank_cd(string_to_array('', '', ',')::float4[], '', '', '', '', '', '')'']
                 [Str [], Sql v, Sql q, arg4]
        else sql [''ts_rank_cd(string_to_array('', '', ',')::float4[], '', '', '', '')'']
                 [Str [], Sql v, Sql q])"
  by (simp add: ts_rank_def ts_rank_cd_def array_join_def)

text \<open>
  C7, as the code has it. In the weights path of \<open>ts_rank\<close> and \<open>ts_rank_cd\<close> the fixed text
  of the fragment is one of two templates, the same for every weights array, and the
  comma-joined weights are the first bound value of the fragment (a string, in the slot
  inside \<^verbatim>\<open>string_to_array(_, ',')::float4[]\<close>).
\<close>

theorem ts_rank_weights_bound_parameter:
  "strings (ts_rank Frag toString (Arr ws) (Sql v) (Sql q) arg4)
     = (if ToBoolean arg4
        then [''ts_rank(string_to_array('', '', ',')::float4[], '', '', '', '', '', '')'']
        else [''ts_rank(string_to_array('', '', ',')::float4[], '', '', '', '')''])
   \<and> hd (params (ts_rank Frag toString (Arr ws) (Sql v) (Sql q) arg4))
     = Str (array_join toString ws '','')
   \<and> strings (ts_rank_cd Frag toString (Arr ws) (Sql v) (Sql q) arg4)
     = (if ToBoolean arg4
        then [''ts_rank_cd(string_to_array('', '', ',')::float4[], '', '', '', '', '', '')'']
        else [''ts_rank_cd(string_to_array('', '', ',')::float4[], '', '', '', '')''])
   \<and> hd (params (ts_rank_cd Frag toString (Arr ws) (Sql v) (Sql q) arg4))
     = Str (array_join toString ws '','')"
  by (simp add: ts_rank_def ts_rank_cd_def)

text \<open>
  C7, as the specification words it (the joined weights are part of the fragment's fixed
  text and not a bound value), fails: for the weights \<open>[1, 2]\<close> the string \<^verbatim>\<open>1,2\<close> is the
  first bound value, and the fixed text is the bare template, with no weights in it.
\<close>

theorem ts_rank_weights_literal_counterexample:
  "params (ts_rank Frag integer_toString (Arr [Finite 1, Finite 2])
       (Sql (Frag [''v''] [])) (Sql (Frag [''q''] [])) Undefined)
     = [Str ''1,2'', Sql (Frag [''v''] []), Sql (Frag [''q''] [])]
   \<and> strings (ts_rank Frag integer_toString (Arr [Finite 1, Finite 2])
       (Sql (Frag [''v''] [])) (Sql (Frag [''q''] [])) Undefined)
     = [''ts_rank(string_to_array('', '', ',')::float4[], '', '', '', '')'']"
  by (simp add: ts_rank_def array_join_def string_of_nat.simps)

subsection \<open>Optional arguments that are present but falsy\<close>

text \<open>
  C1. The specification asks that a normalization of \<^verbatim>\<open>0\<close> still be rendered. The functions
  decide by the truthiness of the argument, and \<^verbatim>\<open>0\<close> is falsy: at normalization \<^verbatim>\<open>0\<close>,
  \<open>ts_rank\<close> and \<open>ts_rank_cd\<close> render the template without the normalization slot and bind
  no normalization value, with weights and without.
\<close>

theorem ts_rank_zero_normalization_dropped:
  "ts_rank sql toString (Sql v) (Sql q) (Num (Finite 0)) Undefined
     = sql [''ts_rank('', '', '', '')''] [Sql v, Sql q]
   \<and> ts_rank sql toString (Arr ws) (Sql v) (Sql q) (Num (Finite 0))
     = sql [''ts_rank(string_to_array('', '', ',')::float4[], '', '', '', '')'']
           [Str (array_join toString ws '',''), Sql v, Sql q]
   \<and> ts_rank_cd sql toString (Sql v) (Sql q) (Num (Finite 0)) Undefined
     = sql [''ts_rank_cd('', '', '', '')''] [Sql v, Sql q]
   \<and> ts_rank_cd sql toString (Arr ws) (Sql v) (Sql q) (Num (Finite 0))
     = sql [''ts_rank_cd(string_to_array('', '', ',')::float4[], '', '', '', '')'']
           [Str (array_join toString ws '',''), Sql v, Sql q]"
  by (simp add: ts_rank_def ts_rank_cd_def)

text \<open>
  C5. \<open>to_tsquery 'english' 'Drizzle'\<close> renders the two-slot template with the configuration
  bound first and the query second. The specification asks the same of every two-argument
  call whose first argument is a string; the five functions decide by the truthiness of
  the second argument, and the empty string is falsy: with an empty payload each of them
  renders the one-slot template and binds the configuration string as the payload.
\<close>

theorem config_ops_empty_payload:
  "to_tsquery sql (Str ''english'') (Str ''Drizzle'')
     = sql [''to_tsquery('', '', '', '')''] [Str ''english'', Str ''Drizzle'']
   \<and> to_tsquery sql (Str ''english'') (Str [])
     = sql [''to_tsquery('', '')''] [Str ''english'']
   \<and> to_tsvector sql (Str ''english'') (Str [])
     = sql [''to_tsvector('', '')''] [Str ''english'']
   \<and> plainto_tsquery sql (Str ''english'') (Str [])
     = sql [''plainto_tsquery('', '')''] [Str ''english'']
   \<and> phraseto_tsquery sql (Str ''english'') (Str [])
     = sql [''phraseto_tsquery('', '')''] [Str ''english'']
   \<and> websearch_to_tsquery sql (Str ''english'') (Str [])
     = sql [''websearch_to_tsquery('', '')''] [Str ''english'']"
  by (simp add: to_tsquery_def to_tsvector_def plainto_tsquery_def phraseto_tsquery_def
      websearch_to_tsquery_def)

subsection \<open>No error of the functions' own, and repeated calls\<close>

text \<open>
  The one operation that can raise does raise when its receiver is not an array; what
  keeps the ranking functions from raising is the \<^verbatim>\<open>Array.isArray\<close> test in front of it.
\<close>

lemma join_method_not_array:
  "\<not> isArray (load h r) \<Longrightarrow> join_method toString r sep h = (Inl TypeError, h)"
  by (simp add: join_method_def)









lemma composer_callI:
  "length strs = Suc (length ps) \<Longrightarrow>
   \<exists>strs' ps'. length strs' = Suc (length ps') \<and> (\<forall>sql. sql strs ps = sql strs' ps')"
  by blast

text \<open>
  C6. Each of the eight exported functions, on every tuple of argument values and every
  heap, raises no error of its own: its outcome is never an \<open>Inl\<close>. It is the result of one
  composer call, on template pieces and values (one more piece than values) fixed by the
  arguments, whatever the composer is; so a failure can only be the composer's. For the two
  ranking functions this rests on the guard: \<^verbatim>\<open>join\<close> is only called on an array.
\<close>

theorem operations_raise_no_error:
  "(\<exists>strs ps. length strs = Suc (length ps) \<and>
       (\<forall>sql :: string list \<Rightarrow> ('s, 'c) jsval list \<Rightarrow> 'r.
          fst (to_tsvector_run sql arg1 arg2 h) = Inr (sql strs ps)))
   \<and> (\<exists>strs ps. length strs = Suc (length ps) \<and>
       (\<forall>sql :: string list \<Rightarrow> ('s, 'c) jsval list \<Rightarrow> 'r.
          fst (to_tsquery_run sql arg1 arg2 h) = Inr (sql strs ps)))
   \<and> (\<exists>strs ps. length strs = Suc (length ps) \<and>
       (\<forall>sql :: string list \<Rightarrow> ('s, 'c) jsval list \<Rightarrow> 'r.
          fst (plainto_tsquery_run sql arg1 arg2 h) = Inr (sql strs ps)))
   \<and> (\<exists>strs ps. length strs = Suc (length ps) \<and>
       (\<forall>sql :: string list \<Rightarrow> ('s, 'c) jsval list \<Rightarrow> 'r.
          fst (phraseto_tsquery_run sql arg1 arg2 h) = Inr (sql strs ps)))
   \<and> (\<exists>strs ps. length strs = Suc (length ps) \<and>
       (\<forall>sql :: string list \<Rightarrow> ('s, 'c) jsval list \<Rightarrow> 'r.
          fst (websearch_to_tsquery_run sql arg1 arg2 h) = Inr (sql strs ps)))
   \<and> (\<exists>strs ps. length strs = Suc (length ps) \<and>
       (\<forall>sql :: string list \<Rightarrow> ('s, 'c) jsval list \<Rightarrow> 'r.
          fst (ts_rank_run sql toString arg1 arg2 arg3 arg4 h) = Inr (sql strs ps)))
   \<and> (\<exists>strs ps. length strs = Suc (length ps) \<and>
       (\<forall>sql :: string list \<Rightarrow> ('s, 'c) jsval list \<Rightarrow> 'r.
          fst (ts_rank_cd_run sql toString arg1 arg2 arg3 arg4 h) = Inr (sql strs ps)))
   \<and> (\<exists>strs ps. length strs = Suc (length ps) \<and>
       (\<forall>sql :: string list \<Rightarrow> ('s, 'c) jsval list \<Rightarrow> 'r.
          fst (setweight_run sql arg1 arg2 h) = Inr (sql strs ps)))"
proof (intro conjI)
  show "\<exists>strs ps. length strs = Suc (length ps) \<and>
       (\<forall>sql :: string list \<Rightarrow> ('s, 'c) jsval list \<Rightarrow> 'r.
          fst (to_tsvector_run sql arg1 arg2 h) = Inr (sql strs ps))"
    unfolding to_tsvector_run_def
    by (cases "ToBoolean (load h arg2)") (simp_all add: composer_callI)
  show "\<exists>strs ps. length strs = Suc (length ps) \<and>
       (\<forall>sql :: string list \<Rightarrow> ('s, 'c) jsval list \<Rightarrow> 'r.
          fst (to_tsquery_run sql arg1 arg2 h) = Inr (sql strs ps))"
    unfolding to_tsquery_run_def
    by (cases "ToBoolean (load h arg2)") (simp_all add: composer_callI)
  show "\<exists>strs ps. length strs = Suc (length ps) \<and>
       (\<forall>sql :: string list \<Rightarrow> ('s, 'c) jsval list \<Rightarrow> 'r.
          fst (plainto_tsquery_run sql arg1 arg2 h) = Inr (sql strs ps))"
    unfolding plainto_tsquery_run_def
    by (cases "ToBoolean (load h arg2)") (simp_all add: composer_callI)
  show "\<exists>strs ps. length strs = Suc (length ps) \<and>
       (\<forall>sql :: string list \<Rightarrow> ('s, 'c) jsval list \<Rightarrow> 'r.
          fst (phraseto_tsquery_run sql arg1 arg2 h) = Inr (sql strs ps))"
    unfolding phraseto_tsquery_run_def
    by (cases "ToBoolean (load h arg2)") (simp_all add: composer_callI)
  show "\<exists>strs ps. length strs = Suc (length ps) \<and>
       (\<forall>sql :: string list \<Rightarrow> ('s, 'c) jsval list \<Rightarrow> 'r.
          fst (websearch_to_tsquery_run sql arg1 arg2 h) = Inr (sql strs ps))"
    unfolding websearch_to_tsquery_run_def
    by (cases "ToBoolean (load h arg2)") (simp_all add: composer_callI)
  show "\<exists>strs ps. length strs = Suc (length ps) \<and>
       (\<forall>sql :: string list \<Rightarrow> ('s, 'c) jsval list \<Rightarrow> 'r.
          fst (ts_rank_run sql toString arg1 arg2 arg3 arg4 h) = Inr (sql strs ps))"
    unfolding ts_rank_run_def join_method_def
    by (cases "isArray (load h arg1)"; cases "typeof (load h arg2) = ''number''";
        cases "load h arg3 = Undefined"; cases "ToBoolean (load h arg3)";
        cases "ToBoolean (load h arg4)") (simp_all add: composer_callI)
  show "\<exists>strs ps. length strs = Suc (length ps) \<and>
       (\<forall>sql :: string list \<Rightarrow> ('s, 'c) jsval list \<Rightarrow> 'r.
          fst (ts_rank_cd_run sql toString arg1 arg2 arg3 arg4 h) = Inr (sql strs ps))"
    unfolding ts_rank_cd_run_def join_method_def
    by (cases "isArray (load h arg1)"; cases "typeof (load h arg2) = ''number''";
        cases "load h arg3 = Undefined"; cases "ToBoolean (load h arg3)";
        cases "ToBoolean (load h arg4)") (simp_all add: composer_callI)
  show "\<exists>strs ps. length strs = Suc (length ps) \<and>
       (\<forall>sql :: string list \<Rightarrow> ('s, 'c) jsval list \<Rightarrow> 'r.
          fst (setweight_run sql arg1 arg2 h) = Inr (sql strs ps))"
    unfolding setweight_run_def by (simp add: composer_callI)
qed



end
